theory Spec2Isabelle
  imports Main "HOL-Library.Word"
begin

unbundle bit_operations_syntax

section \<open>Python text and spreadsheet cells\<close>

text \<open>
  A Python \<open>str\<close> is modelled as a \<open>string\<close> whose characters are the code points
  below 256. The three character classes the registry uses are the ones Python applies
  to these code points: \<open>str.isspace\<close>, \<open>str.isdigit\<close> and \<open>str.lower\<close>.
\<close>

definition isspace :: "char \<Rightarrow> bool" where
  "isspace c = (c \<in> set [CHR 0x09, CHR 0x0A, CHR 0x0B, CHR 0x0C, CHR 0x0D, CHR 0x1C, CHR 0x1D,
                          CHR 0x1E, CHR 0x1F, CHR 0x20, CHR 0x85, CHR 0xA0])"

definition isdigit :: "char \<Rightarrow> bool" where
  "isdigit c = (c \<in> set (''0123456789'' @ [CHR 0xB2, CHR 0xB3, CHR 0xB9]))"

definition lower_char :: "char \<Rightarrow> char" where
  "lower_char c =
     (let n = (of_char c :: nat)
      in if (65 \<le> n \<and> n \<le> 90) \<or> (192 \<le> n \<and> n \<le> 222 \<and> n \<noteq> 215)
         then char_of (n + 32) else c)"

definition lower :: "string \<Rightarrow> string" where
  "lower s = map lower_char s"

text \<open>\<open>s.strip(chars)\<close>: drop the characters satisfying \<open>P\<close> from both ends.\<close>

definition strip_chars :: "(char \<Rightarrow> bool) \<Rightarrow> string \<Rightarrow> string" where
  "strip_chars P s = rev (dropWhile P (rev (dropWhile P s)))"

definition strip :: "string \<Rightarrow> string" where
  "strip s = strip_chars isspace s"

text \<open>
  A cell of a table is a string, Python's \<open>None\<close>, or the floating-point \<open>nan\<close> that
  pandas puts where the spreadsheet is empty. \<open>nan\<close> is truthy in Python and prints
  as \<open>nan\<close>; \<open>None\<close> is falsy and prints as \<open>None\<close>.
\<close>

datatype cell = PyNone | NaN | Str string

fun isna :: "cell \<Rightarrow> bool" where
  "isna PyNone = True"
| "isna NaN = True"
| "isna (Str s) = False"

fun truthy :: "cell \<Rightarrow> bool" where
  "truthy PyNone = False"
| "truthy NaN = True"
| "truthy (Str s) = (s \<noteq> [])"

fun py_str :: "cell \<Rightarrow> string" where
  "py_str PyNone = ''None''"
| "py_str NaN = ''nan''"
| "py_str (Str s) = s"

text \<open>The idiom \<open>str(x or "")\<close>.\<close>

definition str_or_empty :: "cell \<Rightarrow> string" where
  "str_or_empty x = (if truthy x then py_str x else [])"

section \<open>SHA-1\<close>

text \<open>
  \<open>hashlib.sha1\<close> as FIPS 180-4 defines it, on 32-bit words, with the message schedule
  kept as a window of sixteen words (section 6.1.3 of the standard): round \<open>t\<close> consumes
  the oldest word \<open>W\<^sub>t\<close> of the window and appends \<open>W\<^sub>t\<^sub>+\<^sub>1\<^sub>6\<close>.
\<close>

type_synonym byte = "8 word"
type_synonym u32 = "32 word"
type_synonym sha1_state = "u32 \<times> u32 \<times> u32 \<times> u32 \<times> u32"

definition rotl :: "nat \<Rightarrow> u32 \<Rightarrow> u32" where
  "rotl n x = push_bit n x OR drop_bit (32 - n) x"

definition length_bytes :: "nat \<Rightarrow> byte list" where
  "length_bytes bits = map (\<lambda>i. word_of_nat (bits div 2 ^ (8 * i))) [7, 6, 5, 4, 3, 2, 1, 0]"

text \<open>
  Padding: the byte \<open>0x80\<close>, then the least number of zero bytes that brings the length
  to 56 modulo 64 (\<open>119 - r\<close> is \<open>55 - r\<close> plus a whole block, so that nothing is taken
  from a smaller number), then the bit length in eight bytes.
\<close>

definition pad :: "byte list \<Rightarrow> byte list" where
  "pad m = m @ [0x80] @ replicate ((119 - length m mod 64) mod 64) 0 @ length_bytes (8 * length m)"

fun words_of :: "byte list \<Rightarrow> u32 list" where
  "words_of (a # b # c # d # rest) =
     (push_bit 24 (ucast a) OR push_bit 16 (ucast b) OR push_bit 8 (ucast c) OR ucast d)
       # words_of rest"
| "words_of _ = []"

fun blocks :: "u32 list \<Rightarrow> u32 list list" where
  "blocks [] = []"
| "blocks (w # ws) = take 16 (w # ws) # blocks (drop 16 (w # ws))"

definition sha1_f :: "nat \<Rightarrow> u32 \<Rightarrow> u32 \<Rightarrow> u32 \<Rightarrow> u32" where
  "sha1_f t b c d =
    (if t < 20 then (b AND c) OR (NOT b AND d)
     else if t < 40 then b XOR c XOR d
     else if t < 60 then (b AND c) OR (b AND d) OR (c AND d)
     else b XOR c XOR d)"

definition sha1_k :: "nat \<Rightarrow> u32" where
  "sha1_k t = (if t < 20 then 0x5A827999 else if t < 40 then 0x6ED9EBA1
          else if t < 60 then 0x8F1BBCDC else 0xCA62C1D6)"

fun sha1_round :: "sha1_state \<times> u32 list \<Rightarrow> nat \<Rightarrow> sha1_state \<times> u32 list" where
  "sha1_round ((a, b, c, d, e),
      [w0, w1, w2, w3, w4, w5, w6, w7, w8, w9, w10, w11, w12, w13, w14, w15]) t =
     ((rotl 5 a + sha1_f t b c d + e + sha1_k t + w0, a, rotl 30 b, c, d),
      [w1, w2, w3, w4, w5, w6, w7, w8, w9, w10, w11, w12, w13, w14, w15,
       rotl 1 (w13 XOR w8 XOR w2 XOR w0)])"
| "sha1_round s t = s"

fun add_state :: "sha1_state \<Rightarrow> sha1_state \<Rightarrow> sha1_state" where
  "add_state (h0, h1, h2, h3, h4) (a, b, c, d, e) = (h0 + a, h1 + b, h2 + c, h3 + d, h4 + e)"

definition compress :: "sha1_state \<Rightarrow> u32 list \<Rightarrow> sha1_state" where
  "compress h blk = add_state h (fst (foldl sha1_round (h, blk) [0..<80]))"

definition sha1 :: "byte list \<Rightarrow> sha1_state" where
  "sha1 m = foldl compress (0x67452301, 0xEFCDAB89, 0x98BADCFE, 0x10325476, 0xC3D2E1F0)
              (blocks (words_of (pad m)))"

definition hexchar :: "u32 \<Rightarrow> char" where
  "hexchar n = ''0123456789abcdef'' ! unat n"

definition hex32 :: "u32 \<Rightarrow> string" where
  "hex32 w = map (\<lambda>i. hexchar (drop_bit (4 * i) w AND 0xF)) [7, 6, 5, 4, 3, 2, 1, 0]"

fun hexdigest :: "sha1_state \<Rightarrow> string" where
  "hexdigest (a, b, c, d, e) = hex32 a @ hex32 b @ hex32 c @ hex32 d @ hex32 e"

text \<open>\<open>s.encode("utf-8")\<close> for code points below 256.\<close>

definition utf8_char :: "char \<Rightarrow> byte list" where
  "utf8_char c =
     (let n = (of_char c :: nat)
      in if n < 128 then [word_of_nat n]
         else [word_of_nat (192 + n div 64), word_of_nat (128 + n mod 64)])"

definition encode_utf8 :: "string \<Rightarrow> byte list" where
  "encode_utf8 s = concat (map utf8_char s)"

section \<open>Identity key (\<open>stable_key\<close>, app.py lines 71-75)\<close>

text \<open>
  The first argument stands for the sixteen bytes that \<open>os.urandom(16)\<close> returns when
  the function draws them; the function reads it only on the branch that draws.
\<close>

definition stable_key :: "byte list \<Rightarrow> string \<Rightarrow> string \<Rightarrow> string" where
  "stable_key urandom name phone =
     (let name = lower (strip name);
          phone = filter isdigit phone;
          raw = name @ ''|'' @ phone
      in if strip_chars (\<lambda>c. c = CHR ''|'') raw \<noteq> []
         then take 12 (hexdigest (sha1 (encode_utf8 raw)))
         else take 12 (hexdigest (sha1 urandom)))"

section \<open>The registry tables (app.py)\<close>

text \<open>
  The two sheets are lists of rows in sheet order, one record field per column of
  \<open>CAREGIVER_COLS\<close> and \<open>CHILD_COLS\<close>. The key column holds strings; text columns hold
  cells; number and date columns hold a value or nothing.
\<close>

type_synonym date = "nat \<times> nat \<times> nat"

record caregiver =
  caregiver_key :: string
  caregiver_name :: cell
  gender :: cell
  profession :: cell
  date_of_birth :: "date option"
  age :: "int option"
  phone_number :: cell
  address :: cell
  zonal_leader :: cell
  bank :: cell
  account_number :: cell
  number_of_kids :: "int option"
  last_updated :: cell

record child =
  ch_caregiver_key :: string
  ch_caregiver_name :: cell
  child_name :: cell
  child_gender :: cell
  child_phone_number :: cell
  child_age :: "int option"
  child_date_of_birth :: "date option"
  child_education_level :: cell
  child_school_name :: cell
  child_class_level :: cell
  child_profession :: cell
  ch_last_updated :: cell

text \<open>A row of the children editor (\<open>st.data_editor\<close>): the nine editable columns.\<close>

record child_row =
  row_child_name :: cell
  row_child_gender :: cell
  row_child_phone_number :: cell
  row_child_age :: "int option"
  row_child_date_of_birth :: "date option"
  row_child_education_level :: cell
  row_child_school_name :: cell
  row_child_class_level :: cell
  row_child_profession :: cell

type_synonym tables = "caregiver list \<times> child list"

datatype error =
    NameRequired
  | ChildNameRequired "nat list"
  | InvalidPhone "nat list"
  | NameError
  | IndexError

definition validate_phone_number :: "string \<Rightarrow> bool" where
  "validate_phone_number phone = True"

text \<open>The name of an editor row as every handler reads it: \<open>str(r.get("child_name") or "").strip()\<close>.\<close>

definition row_name :: "child_row \<Rightarrow> string" where
  "row_name r = strip (str_or_empty (row_child_name r))"

definition invalid_child_phones :: "child_row list \<Rightarrow> nat list" where
  "invalid_child_phones edited =
     map fst (filter (\<lambda>(i, r).
         let phone = strip (str_or_empty (row_child_phone_number r))
         in phone \<noteq> [] \<and> \<not> validate_phone_number phone)
       (enumerate 1 edited))"

subsection \<open>New caregiver: the \<open>caregiver_form\<close> submit handler\<close>

text \<open>
  app.py lines 362-468. \<open>urandom\<close> and \<open>now\<close> are what \<open>os.urandom(16)\<close> and
  \<open>datetime.utcnow().isoformat()\<close> return during the run; \<open>edited\<close> is the content of
  the children editor. An \<open>st.error\<close> followed by \<open>st.stop()\<close> is an error value, and
  nothing is saved; otherwise the result is the pair of sheets given to \<open>save_data\<close>.
\<close>

record caregiver_form =
  c_name :: string
  c_dob :: "date option"
  c_age :: int
  c_gender :: string
  c_prof :: string
  c_phone :: string
  c_address :: string
  c_zonal_leader :: string
  c_bank :: string
  c_account_number :: string
  c_numkids :: int

definition missing_child_names :: "child_row list \<Rightarrow> nat list" where
  "missing_child_names edited =
     map fst (filter (\<lambda>(i, r).
         row_name r = [] \<and>
         (strip (str_or_empty (row_child_phone_number r)) \<noteq> [] \<or> row_child_age r \<noteq> None \<or>
          row_child_date_of_birth r \<noteq> None \<or> truthy (row_child_education_level r) \<or>
          truthy (row_child_profession r)))
       (enumerate 1 edited))"

definition new_row :: "string \<Rightarrow> string \<Rightarrow> caregiver_form \<Rightarrow> caregiver" where
  "new_row key now form =
     \<lparr>caregiver_key = key,
      caregiver_name = Str (strip (c_name form)),
      gender = Str (c_gender form),
      profession = Str (strip (c_prof form)),
      date_of_birth = c_dob form,
      age = (if c_age form > 0 then Some (c_age form) else None),
      phone_number = Str (strip (c_phone form)),
      address = Str (if c_address form \<noteq> [] then strip (c_address form) else []),
      zonal_leader = Str (if c_zonal_leader form \<noteq> [] then strip (c_zonal_leader form) else []),
      bank = Str (if c_bank form \<noteq> [] then strip (c_bank form) else []),
      account_number =
        Str (if c_account_number form \<noteq> [] then strip (c_account_number form) else []),
      number_of_kids = Some (c_numkids form),
      last_updated = Str now\<rparr>"

definition new_child :: "string \<Rightarrow> string \<Rightarrow> caregiver_form \<Rightarrow> child_row \<Rightarrow> child" where
  "new_child key now form r =
     (let child_phone_raw = row_child_phone_number r;
          child_phone = (if isna child_phone_raw \<or> strip (py_str child_phone_raw) = []
                         then strip (c_phone form) else strip (py_str child_phone_raw))
      in \<lparr>ch_caregiver_key = key,
          ch_caregiver_name = Str (strip (c_name form)),
          child_name = Str (row_name r),
          child_gender = Str (strip (str_or_empty (row_child_gender r))),
          child_phone_number = Str child_phone,
          child_age = row_child_age r,
          child_date_of_birth = row_child_date_of_birth r,
          child_education_level = Str (strip (str_or_empty (row_child_education_level r))),
          child_school_name = Str (strip (str_or_empty (row_child_school_name r))),
          child_class_level = Str (strip (str_or_empty (row_child_class_level r))),
          child_profession = Str (strip (str_or_empty (row_child_profession r))),
          ch_last_updated = Str now\<rparr>)"

definition save_caregiver ::
  "byte list \<Rightarrow> string \<Rightarrow> caregiver_form \<Rightarrow> child_row list \<Rightarrow> tables \<Rightarrow> error + tables" where
  "save_caregiver urandom now form edited tabs =
     (case tabs of (cg_df, ch_df) \<Rightarrow>
        if c_name form = [] then Inl NameRequired
        else if missing_child_names edited \<noteq> [] then
          Inl (ChildNameRequired (missing_child_names edited))
        else if invalid_child_phones edited \<noteq> [] then
          Inl (InvalidPhone (invalid_child_phones edited))
        else
          let key = stable_key urandom (c_name form) (c_phone form);
              cg_df = filter (\<lambda>r. caregiver_key r \<noteq> key) cg_df @ [new_row key now form];
              children_rows = map (new_child key now form) (filter (\<lambda>r. row_name r \<noteq> []) edited);
              ch_df = filter (\<lambda>r. ch_caregiver_key r \<noteq> key) ch_df;
              ch_df = (if children_rows \<noteq> [] then ch_df @ children_rows else ch_df)
          in Inr (cg_df, ch_df))"

subsection \<open>Edit caregiver: the \<open>update_submitted\<close> handler of the Edit tab\<close>

text \<open>app.py lines 1942-2197; the handler proper starts at line 2113.\<close>

record edit_form =
  edit_name :: string
  edit_dob :: "date option"
  edit_age :: int
  edit_gender :: string
  edit_prof :: string
  edit_phone :: string
  edit_address :: string
  edit_zonal_leader :: string
  edit_bank :: string
  edit_account_number :: string
  edit_numkids :: int

text \<open>
  What the children editor is opened with: the caregiver's children, text columns with
  \<open>fillna("").astype(str)\<close> except name and education level.
\<close>

definition fillna_str :: "cell \<Rightarrow> cell" where
  "fillna_str x = (if isna x then Str [] else Str (py_str x))"

definition children_edit_data :: "child \<Rightarrow> child_row" where
  "children_edit_data c =
     \<lparr>row_child_name = child_name c,
      row_child_gender = fillna_str (child_gender c),
      row_child_phone_number = fillna_str (child_phone_number c),
      row_child_age = child_age c,
      row_child_date_of_birth = child_date_of_birth c,
      row_child_education_level = child_education_level c,
      row_child_school_name = fillna_str (child_school_name c),
      row_child_class_level = fillna_str (child_class_level c),
      row_child_profession = fillna_str (child_profession c)\<rparr>"

definition updated_caregiver :: "string \<Rightarrow> string \<Rightarrow> edit_form \<Rightarrow> caregiver" where
  "updated_caregiver new_key now form =
     \<lparr>caregiver_key = new_key,
      caregiver_name = Str (strip (edit_name form)),
      gender = Str (edit_gender form),
      profession = Str (strip (edit_prof form)),
      date_of_birth = edit_dob form,
      age = Some (edit_age form),
      phone_number = Str (strip (edit_phone form)),
      address = Str (if edit_address form \<noteq> [] then strip (edit_address form) else []),
      zonal_leader = Str (strip (edit_zonal_leader form)),
      bank = Str (if edit_bank form \<noteq> [] then strip (edit_bank form) else []),
      account_number =
        Str (if edit_account_number form \<noteq> [] then strip (edit_account_number form) else []),
      number_of_kids = Some (edit_numkids form),
      last_updated = Str now\<rparr>"

definition updated_child :: "string \<Rightarrow> string \<Rightarrow> edit_form \<Rightarrow> child_row \<Rightarrow> child" where
  "updated_child new_key now form r =
     \<lparr>ch_caregiver_key = new_key,
      ch_caregiver_name = Str (strip (edit_name form)),
      child_name = Str (row_name r),
      child_gender = Str (strip (str_or_empty (row_child_gender r))),
      child_phone_number = Str (strip (str_or_empty (row_child_phone_number r))),
      child_age = row_child_age r,
      child_date_of_birth = row_child_date_of_birth r,
      child_education_level = Str (strip (str_or_empty (row_child_education_level r))),
      child_school_name = Str (strip (str_or_empty (row_child_school_name r))),
      child_class_level = Str (strip (str_or_empty (row_child_class_level r))),
      child_profession = Str (strip (str_or_empty (row_child_profession r))),
      ch_last_updated = Str now\<rparr>"

text \<open>
  \<open>selected_caregiver\<close> is the name picked in the select box, \<open>current_key\<close> the
  key of the first row with that name (\<open>caregiver_key\<close> in the source), and
  \<open>edited_children\<close> what the user leaves in the children editor. The editor is
  created only when the caregiver has children (lines 1996-2109: the branch for none is
  nested under the test that there are some), so for a caregiver without children the
  handler reads an unbound name at line 2121.
\<close>

definition update_caregiver ::
  "byte list \<Rightarrow> string \<Rightarrow> string \<Rightarrow> edit_form \<Rightarrow> child_row list \<Rightarrow> tables \<Rightarrow> error + tables" where
  "update_caregiver urandom now selected_caregiver form edited_children tabs =
     (case tabs of (cg_df, ch_df) \<Rightarrow>
       (case filter (\<lambda>r. caregiver_name r = Str selected_caregiver) cg_df of
          [] \<Rightarrow> Inl IndexError
        | caregiver_data # _ \<Rightarrow>
            let current_key = caregiver_key caregiver_data;
                caregiver_children = filter (\<lambda>r. ch_caregiver_key r = current_key) ch_df
            in if edit_name form = [] then Inl NameRequired
               else if caregiver_children = [] then Inl NameError
               else if invalid_child_phones edited_children \<noteq> [] then
                 Inl (InvalidPhone (invalid_child_phones edited_children))
               else
                 let (new_key, cg_df, ch_df) =
                       (if Str (edit_name form) \<noteq> caregiver_name caregiver_data \<or>
                           Str (edit_phone form) \<noteq> phone_number caregiver_data
                        then (stable_key urandom (edit_name form) (edit_phone form),
                              filter (\<lambda>r. caregiver_key r \<noteq> current_key) cg_df,
                              filter (\<lambda>r. ch_caregiver_key r \<noteq> current_key) ch_df)
                        else (current_key,
                              filter (\<lambda>r. caregiver_key r \<noteq> current_key) cg_df,
                              ch_df));
                     cg_df = cg_df @ [updated_caregiver new_key now form];
                     children_rows = map (updated_child new_key now form)
                                       (filter (\<lambda>r. row_name r \<noteq> []) edited_children);
                     ch_df = (if children_rows \<noteq> [] then ch_df @ children_rows else ch_df)
                 in Inr (cg_df, ch_df)))"

subsection \<open>Caregiver import (the CSV and the Excel branch run the same loop)\<close>

text \<open>
  app.py lines 2290-2323 and 2386-2419. A column the file lacks reads as \<open>None\<close>; the
  numeric and date columns are taken as already read.
\<close>

record import_row =
  imp_caregiver_name :: cell
  imp_phone_number :: cell
  imp_gender :: cell
  imp_profession :: cell
  imp_date_of_birth :: "date option"
  imp_age :: "int option"
  imp_address :: cell
  imp_zonal_leader :: cell
  imp_bank :: cell
  imp_account_number :: cell
  imp_number_of_kids :: "int option"

definition imported_row :: "string \<Rightarrow> string \<Rightarrow> string \<Rightarrow> string \<Rightarrow> import_row \<Rightarrow> caregiver" where
  "imported_row key now name phone row =
     \<lparr>caregiver_key = key,
      caregiver_name = Str name,
      gender = Str (strip (str_or_empty (imp_gender row))),
      profession = Str (strip (str_or_empty (imp_profession row))),
      date_of_birth = imp_date_of_birth row,
      age = imp_age row,
      phone_number = Str phone,
      address = Str (strip (str_or_empty (imp_address row))),
      zonal_leader = Str (strip (str_or_empty (imp_zonal_leader row))),
      bank = Str (strip (str_or_empty (imp_bank row))),
      account_number = Str (strip (str_or_empty (imp_account_number row))),
      number_of_kids = imp_number_of_kids row,
      last_updated = Str now\<rparr>"

definition import_caregiver_row :: "byte list \<Rightarrow> string \<Rightarrow> import_row \<Rightarrow> tables \<Rightarrow> tables" where
  "import_caregiver_row urandom now row tabs =
     (case tabs of (cg_df, ch_df) \<Rightarrow>
        let name = strip (str_or_empty (imp_caregiver_name row));
            phone = strip (str_or_empty (imp_phone_number row))
        in if name = [] then (cg_df, ch_df)
           else
             let key = stable_key urandom name phone
             in (filter (\<lambda>r. caregiver_key r \<noteq> key) cg_df @ [imported_row key now name phone row],
                 ch_df))"

text \<open>
  The loop over the uploaded rows. Row \<open>i\<close> has its own clock reading \<open>utcnow i\<close> and,
  if its key is drawn, its own random bytes \<open>urandom i\<close>.
\<close>

fun import_loop ::
  "(nat \<Rightarrow> byte list) \<Rightarrow> (nat \<Rightarrow> string) \<Rightarrow> nat \<Rightarrow> import_row list \<Rightarrow> tables \<Rightarrow> tables" where
  "import_loop urandom utcnow i [] tabs = tabs"
| "import_loop urandom utcnow i (row # rows) tabs =
     import_loop urandom utcnow (Suc i) rows (import_caregiver_row (urandom i) (utcnow i) row tabs)"

definition import_caregivers ::
  "(nat \<Rightarrow> byte list) \<Rightarrow> (nat \<Rightarrow> string) \<Rightarrow> import_row list \<Rightarrow> tables \<Rightarrow> tables" where
  "import_caregivers urandom utcnow import_df tabs = import_loop urandom utcnow 0 import_df tabs"

subsection \<open>The workbook: \<open>load_data\<close> and \<open>save_data\<close>\<close>

text \<open>
  app.py lines 87-131. The file at \<open>EXCEL_PATH\<close> is absent or holds the two sheets. A
  sheet is kept here as the rows \<open>to_excel\<close> was handed, and \<open>read_cell\<close> is what
  \<open>read_excel\<close> returns for a text cell written from a given value: \<open>to_excel\<close> leaves
  the cell of a missing value empty and writes the text of any other value, and
  \<open>read_excel\<close> returns \<open>nan\<close> for an empty cell and for a text that is one of its
  default \<open>na_values\<close>, and the text itself otherwise.
\<close>

definition na_values :: "string list" where
  "na_values = [[], ''#N/A'', ''#N/A N/A'', ''#NA'', ''-1.#IND'', ''-1.#QNAN'', ''-NaN'', ''-nan'',
                ''1.#IND'', ''1.#QNAN'', ''<NA>'', ''N/A'', ''NA'', ''NULL'', ''NaN'', ''None'',
                ''n/a'', ''nan'', ''null'']"

definition read_cell :: "cell \<Rightarrow> cell" where
  "read_cell written =
     (if isna written then NaN
      else if py_str written \<in> set na_values then NaN
      else Str (py_str written))"

text \<open>
  The rows of the two sheets as \<open>read_excel\<close> returns them. Keys, numbers and dates come
  back as they were written (so that \<open>pd.to_datetime(...).dt.date\<close> has nothing to
  change), and every column of \<open>CAREGIVER_COLS\<close> and \<open>CHILD_COLS\<close> is in the sheet. Two
  things are outside the model: the type inference of \<open>read_excel\<close>, which reads a column
  whose texts are all numbers, or all truth values, as numbers or truth values; and the
  \<open>except\<close> clauses, which answer a file that cannot be read or written.
\<close>

definition read_caregiver :: "caregiver \<Rightarrow> caregiver" where
  "read_caregiver r =
     r\<lparr>caregiver_name := read_cell (caregiver_name r),
       gender := read_cell (gender r),
       profession := read_cell (profession r),
       phone_number := read_cell (phone_number r),
       address := read_cell (address r),
       zonal_leader := read_cell (zonal_leader r),
       bank := read_cell (bank r),
       account_number := read_cell (account_number r),
       last_updated := read_cell (last_updated r)\<rparr>"

definition read_child :: "child \<Rightarrow> child" where
  "read_child r =
     r\<lparr>ch_caregiver_name := read_cell (ch_caregiver_name r),
       child_name := read_cell (child_name r),
       child_gender := read_cell (child_gender r),
       child_phone_number := read_cell (child_phone_number r),
       child_education_level := read_cell (child_education_level r),
       child_school_name := read_cell (child_school_name r),
       child_class_level := read_cell (child_class_level r),
       child_profession := read_cell (child_profession r),
       ch_last_updated := read_cell (ch_last_updated r)\<rparr>"

record workbook =
  sheet_caregivers :: "caregiver list"
  sheet_children :: "child list"

text \<open>\<open>ensure_excel\<close> creates a workbook with two empty sheets when there is none.\<close>

definition ensure_excel :: "workbook option \<Rightarrow> workbook" where
  "ensure_excel file =
     (case file of
        None \<Rightarrow> \<lparr>sheet_caregivers = [], sheet_children = []\<rparr>
      | Some book \<Rightarrow> book)"

text \<open>\<open>load_data\<close> returns the file as it leaves it, and the two frames.\<close>

definition load_data :: "workbook option \<Rightarrow> workbook option \<times> tables" where
  "load_data file =
     (let book = ensure_excel file;
          cg_df = map read_caregiver (sheet_caregivers book);
          ch_df = map read_child (sheet_children book)
      in (Some book, (cg_df, ch_df)))"

text \<open>\<open>save_data\<close> overwrites the file with the two frames: the result is the file.\<close>

definition save_data :: "tables \<Rightarrow> workbook option" where
  "save_data tabs =
     (case tabs of (cg_df, ch_df) \<Rightarrow> Some \<lparr>sheet_caregivers = cg_df, sheet_children = ch_df\<rparr>)"

subsection \<open>\<open>migrate_child_phone_numbers\<close>\<close>

text \<open>\<open>dict(zip(keys, phones))\<close>: a later row of the sheet overrides an earlier one.\<close>

definition caregiver_phones :: "caregiver list \<Rightarrow> (string \<rightharpoonup> cell)" where
  "caregiver_phones cg_df = map_of (rev (map (\<lambda>r. (caregiver_key r, phone_number r)) cg_df))"

text \<open>
  app.py lines 146-156: the loop over the children frame, which returns the frame with
  the phones it has filled in, and \<open>updated_count\<close>.
\<close>

fun migrate_loop :: "(string \<rightharpoonup> cell) \<Rightarrow> child list \<Rightarrow> child list \<times> nat" where
  "migrate_loop phones [] = ([], 0)"
| "migrate_loop phones (row # rows) =
     (let child_phone = child_phone_number row;
          (rows', updated_count) = migrate_loop phones rows
      in if (isna child_phone \<or> strip (py_str child_phone) = [])
            \<and> phones (ch_caregiver_key row) \<noteq> None
         then (case phones (ch_caregiver_key row) of
                 Some caregiver_phone \<Rightarrow>
                   if truthy caregiver_phone \<and> strip (py_str caregiver_phone) \<noteq> []
                   then (row\<lparr>child_phone_number := Str (strip (py_str caregiver_phone))\<rparr> # rows',
                         updated_count + 1)
                   else (row # rows', updated_count)
               | None \<Rightarrow> (row # rows', updated_count))
         else (row # rows', updated_count))"

text \<open>
  app.py lines 136-162: the function takes no argument. It loads the workbook, runs the
  loop, and saves only when the loop has filled in a phone; it returns the count. The
  model returns the file as the run leaves it together with the count, so that a second
  run starts, as in the program, from the file the first one left.
\<close>

definition migrate_child_phone_numbers :: "workbook option \<Rightarrow> workbook option \<times> nat" where
  "migrate_child_phone_numbers file =
     (case load_data file of (file, cg_df, ch_df) \<Rightarrow>
        (case migrate_loop (caregiver_phones cg_df) ch_df of (ch_df, updated_count) \<Rightarrow>
           if updated_count > 0 then (save_data (cg_df, ch_df), updated_count)
           else (file, 0)))"

section \<open>Unverified names (unverified_caregivers.py)\<close>

text \<open>One field per column of \<open>UNVERIFIED_COLS\<close> (\<open>notes_col\<close> is the column \<open>notes\<close>).\<close>

record unverified =
  unverified_id :: string
  name :: cell
  status :: cell
  upload_date :: cell
  notes_col :: cell
  verified_date :: cell
  verified_by :: cell

definition generate_unverified_id :: "string \<Rightarrow> string \<Rightarrow> string" where
  "generate_unverified_id timestamp nm =
     take 12 (hexdigest (sha1 (encode_utf8 (lower (strip nm) @ ''|'' @ timestamp))))"

subsection \<open>Upload tab: Add to Unverified List\<close>

text \<open>\<open>Series.unique()\<close>: the distinct values in order of first appearance.\<close>

fun unique_from :: "'a list \<Rightarrow> 'a list \<Rightarrow> 'a list" where
  "unique_from seen [] = []"
| "unique_from seen (x # xs) =
     (if x \<in> set seen then unique_from seen xs else x # unique_from (x # seen) xs)"

definition names_preview :: "cell list \<Rightarrow> cell list" where
  "names_preview column = unique_from [] (filter (\<lambda>x. \<not> isna x) column)"

text \<open>\<open>unverified_df[unverified_df['name'].str.lower() == clean_name.lower()]\<close> is not empty.\<close>

definition name_exists :: "unverified list \<Rightarrow> string \<Rightarrow> bool" where
  "name_exists unverified_df clean_name =
     list_ex (\<lambda>r. case name r of Str s \<Rightarrow> lower s = lower clean_name | _ \<Rightarrow> False) unverified_df"

text \<open>
  The loop that collects \<open>new_records\<close>. \<open>clock i\<close> is the reading of \<open>datetime.now()\<close>
  inside \<open>generate_unverified_id\<close> for the \<open>i\<close>-th name. Every name is looked up in
  \<open>unverified_df\<close>, the list as loaded.
\<close>

fun new_records ::
  "(nat \<Rightarrow> string) \<Rightarrow> string \<Rightarrow> string \<Rightarrow> unverified list \<Rightarrow> nat \<Rightarrow> cell list \<Rightarrow> unverified list" where
  "new_records clock now file_name unverified_df i [] = []"
| "new_records clock now file_name unverified_df i (nm # names) =
     (if truthy nm \<and> strip (py_str nm) \<noteq> [] then
        let clean_name = strip (py_str nm)
        in if name_exists unverified_df clean_name
           then new_records clock now file_name unverified_df (Suc i) names
           else \<lparr>unverified_id = generate_unverified_id (clock i) clean_name,
                 name = Str clean_name,
                 status = Str ''pending'',
                 upload_date = Str now,
                 notes_col = Str (''Uploaded from '' @ file_name),
                 verified_date = PyNone,
                 verified_by = PyNone\<rparr>
                # new_records clock now file_name unverified_df (Suc i) names
      else new_records clock now file_name unverified_df (Suc i) names)"

text \<open>The list after the button, and the number reported as added.\<close>

definition add_to_unverified_list ::
  "(nat \<Rightarrow> string) \<Rightarrow> string \<Rightarrow> string \<Rightarrow> cell list \<Rightarrow> unverified list \<Rightarrow> unverified list \<times> nat" where
  "add_to_unverified_list clock now file_name column unverified_df =
     (let recs = new_records clock now file_name unverified_df 0 (names_preview column)
      in (if recs \<noteq> [] then unverified_df @ recs else unverified_df, length recs))"

subsection \<open>Verify tab: the Verify and Reject buttons\<close>



subsection \<open>Manage tab: filter, Save Changes and the bulk actions\<close>


text \<open>Save Changes: each row of the editor overwrites the first row with its id.\<close>

definition save_changes :: "unverified list \<Rightarrow> unverified list \<Rightarrow> unverified list" where
  "save_changes edited_df unverified_df =
     foldl (\<lambda>df row.
         case filter (\<lambda>idx. unverified_id (df ! idx) = unverified_id row) [0..<length df] of
           [] \<Rightarrow> df
         | original_idx # _ \<Rightarrow> df[original_idx := row])
       unverified_df edited_df"


definition mark_all_filtered_rejected ::
  "(nat \<Rightarrow> string) \<Rightarrow> nat list \<Rightarrow> unverified list \<Rightarrow> unverified list" where
  "mark_all_filtered_rejected clock filtered unverified_df =
     foldl (\<lambda>df idx. df[idx := (df ! idx)
               \<lparr>status := Str ''rejected'', verified_date := Str (clock idx),
                verified_by := Str ''Bulk Action''\<rparr>])
       unverified_df filtered"

definition delete_all_filtered :: "nat list \<Rightarrow> unverified list \<Rightarrow> unverified list" where
  "delete_all_filtered filtered unverified_df =
     map snd (filter (\<lambda>(idx, r). idx \<notin> set filtered) (enumerate 0 unverified_df))"

section \<open>Scenario data\<close>

text \<open>
  Rows and form contents used to run the handlers: the caregiver Jane Doe with her child
  Tom, whose phone is blank; a second caregiver Bob with his child Tim. The keys are the
  ones \<open>stable_key\<close> derives from the names and phones shown.
\<close>

definition jane :: caregiver where
  "jane = \<lparr>caregiver_key = ''a00da052508c'', caregiver_name = Str ''Jane Doe'',
            gender = Str ''female'', profession = Str ''Trader'', date_of_birth = None,
            age = Some 34, phone_number = Str ''0803-111-2222'',
            address = Str ''12 Market Road'', zonal_leader = Str [], bank = Str [],
            account_number = Str [], number_of_kids = Some 1,
            last_updated = Str ''2024-01-01T09:00:00''\<rparr>"

definition tom :: child where
  "tom = \<lparr>ch_caregiver_key = ''a00da052508c'', ch_caregiver_name = Str ''Jane Doe'',
           child_name = Str ''Tom'', child_gender = Str ''male'', child_phone_number = Str [],
           child_age = Some 5, child_date_of_birth = None,
           child_education_level = Str ''Primary'', child_school_name = Str [],
           child_class_level = Str ''Primary 1'', child_profession = Str [],
           ch_last_updated = Str ''2024-01-01T09:00:00''\<rparr>"

definition bob :: caregiver where
  "bob = \<lparr>caregiver_key = ''819a0d7307eb'', caregiver_name = Str ''Bob'',
           gender = Str ''male'', profession = Str [], date_of_birth = None,
           age = Some 40, phone_number = Str ''222'',
           address = Str [], zonal_leader = Str [], bank = Str [],
           account_number = Str [], number_of_kids = Some 1,
           last_updated = Str ''2024-01-01T09:30:00''\<rparr>"

definition tim :: child where
  "tim = \<lparr>ch_caregiver_key = ''819a0d7307eb'', ch_caregiver_name = Str ''Bob'',
           child_name = Str ''Tim'', child_gender = Str ''male'', child_phone_number = Str ''222'',
           child_age = Some 7, child_date_of_birth = None,
           child_education_level = Str ''Primary'', child_school_name = Str [],
           child_class_level = Str ''Primary 2'', child_profession = Str [],
           ch_last_updated = Str ''2024-01-01T09:30:00''\<rparr>"

text \<open>The new-caregiver form filled in for Jane Doe.\<close>

definition jane_form :: caregiver_form where
  "jane_form = \<lparr>c_name = ''Jane Doe'', c_dob = None, c_age = 34, c_gender = ''female'',
                 c_prof = ''Trader'', c_phone = ''0803-111-2222'', c_address = ''12 Market Road'',
                 c_zonal_leader = [], c_bank = [], c_account_number = [], c_numkids = 1\<rparr>"

text \<open>The edit form opened on Jane Doe, with only the phone number changed.\<close>

definition jane_new_phone :: edit_form where
  "jane_new_phone = \<lparr>edit_name = ''Jane Doe'', edit_dob = None, edit_age = 34,
                      edit_gender = ''female'', edit_prof = ''Trader'',
                      edit_phone = ''0803-999-0000'', edit_address = ''12 Market Road'',
                      edit_zonal_leader = [], edit_bank = [], edit_account_number = [],
                      edit_numkids = 1\<rparr>"

text \<open>The edit form opened on Bob, with Jane Doe's name and phone typed in.\<close>

definition bob_as_jane :: edit_form where
  "bob_as_jane = \<lparr>edit_name = ''Jane Doe'', edit_dob = None, edit_age = 40,
                   edit_gender = ''male'', edit_prof = [],
                   edit_phone = ''0803-111-2222'', edit_address = [],
                   edit_zonal_leader = [], edit_bank = [], edit_account_number = [],
                   edit_numkids = 1\<rparr>"

text \<open>An editor row with every cell empty, as the blank template has it.\<close>

definition blank_row :: child_row where
  "blank_row = \<lparr>row_child_name = Str [], row_child_gender = Str [],
                 row_child_phone_number = Str [], row_child_age = None,
                 row_child_date_of_birth = None, row_child_education_level = Str [],
                 row_child_school_name = Str [], row_child_class_level = Str [],
                 row_child_profession = Str []\<rparr>"

text \<open>An uploaded caregiver row: Jane Doe again, under another phone number.\<close>

definition jane_import :: import_row where
  "jane_import = \<lparr>imp_caregiver_name = Str ''Jane Doe'', imp_phone_number = Str ''0803-999-0000'',
                   imp_gender = Str ''female'', imp_profession = Str ''Trader'',
                   imp_date_of_birth = None, imp_age = Some 34,
                   imp_address = Str ''12 Market Road'', imp_zonal_leader = PyNone,
                   imp_bank = PyNone, imp_account_number = PyNone,
                   imp_number_of_kids = Some 1\<rparr>"

text \<open>
  A workbook for the migration: Jane Doe with her children Tom, who has no phone, and
  Tola, who has her own; and Mary, registered without a phone (her key is the one
  \<open>stable_key\<close> derives from \<open>mary|\<close>), with her child Ada, who has none either.
\<close>

definition tola :: child where
  "tola = \<lparr>ch_caregiver_key = ''a00da052508c'', ch_caregiver_name = Str ''Jane Doe'',
            child_name = Str ''Tola'', child_gender = Str ''female'',
            child_phone_number = Str ''0701-222-3333'',
            child_age = Some 16, child_date_of_birth = None,
            child_education_level = Str ''Secondary'', child_school_name = Str [],
            child_class_level = Str ''SS 2'', child_profession = Str [],
            ch_last_updated = Str ''2024-01-01T09:00:00''\<rparr>"

definition mary :: caregiver where
  "mary = \<lparr>caregiver_key = ''3b77021e9b99'', caregiver_name = Str ''Mary'',
            gender = Str ''female'', profession = Str ''Farmer'', date_of_birth = None,
            age = Some 29, phone_number = Str [],
            address = Str [], zonal_leader = Str [], bank = Str [],
            account_number = Str [], number_of_kids = Some 1,
            last_updated = Str ''2024-01-01T10:00:00''\<rparr>"

definition ada :: child where
  "ada = \<lparr>ch_caregiver_key = ''3b77021e9b99'', ch_caregiver_name = Str ''Mary'',
           child_name = Str ''Ada'', child_gender = Str ''female'', child_phone_number = Str [],
           child_age = Some 3, child_date_of_birth = None,
           child_education_level = Str ''Nursery'', child_school_name = Str [],
           child_class_level = Str [], child_profession = Str [],
           ch_last_updated = Str ''2024-01-01T10:00:00''\<rparr>"

definition registry :: workbook where
  "registry = \<lparr>sheet_caregivers = [jane, mary], sheet_children = [tom, tola, ada]\<rparr>"



text \<open>
  Two draws of \<open>os.urandom(16)\<close>, a clock reading, and a random source and a clock
  that return these at every call.
\<close>

definition draw1 :: "byte list" where
  "draw1 = [0, 0, 0, 0, 0, 0, 0, 0, 0, 0, 0, 0, 0, 0xEE, 0xAF, 0xD4]"

definition draw2 :: "byte list" where
  "draw2 = [0, 0, 0, 0, 0, 0, 0, 0, 0, 0, 0, 0, 0, 0x30, 0xB7, 0x0F]"

definition noon :: string where
  "noon = ''2024-01-02T12:00:00.000000''"

definition fixed_draw :: "nat \<Rightarrow> byte list" where
  "fixed_draw i = draw1"

definition fixed_clock :: "nat \<Rightarrow> string" where
  "fixed_clock i = noon"

section \<open>Rows as the handlers write them\<close>

text \<open>
  A child row as the handlers write it: every text cell a string without surrounding
  white space, and a name that is not empty.
\<close>

definition stripped :: "cell \<Rightarrow> bool" where
  "stripped x = (case x of Str s \<Rightarrow> strip s = s | _ \<Rightarrow> False)"

definition written_child :: "child \<Rightarrow> bool" where
  "written_child c =
     (stripped (child_name c) \<and> child_name c \<noteq> Str [] \<and> stripped (child_gender c) \<and>
      stripped (child_phone_number c) \<and> stripped (child_education_level c) \<and>
      stripped (child_school_name c) \<and> stripped (child_class_level c) \<and>
      stripped (child_profession c))"

section \<open>Running the hash\<close>

text \<open>
  Rewrite rules that let the simplifier run \<open>sha1\<close> on a given message: the list of
  round numbers unfolded from its first element, and a round whose three new words are
  reduced modulo \<open>2\<^sup>3\<^sup>2\<close> as soon as they are computed.
\<close>

lemma upt_0_numeral: "[0..<numeral n] = 0 # [Suc 0..<numeral n]"
  by (simp add: upt_conv_Cons)

lemma upt_Suc_0_numeral:
  "[Suc 0..<numeral n] = (if Suc 0 < numeral n then Suc 0 # [2..<numeral n] else [])"
  by (simp add: upt_conv_Cons numeral_2_eq_2)

lemma sha1_round_reduced:
  "sha1_round ((a, b, c, d, e),
      [w0, w1, w2, w3, w4, w5, w6, w7, w8, w9, w10, w11, w12, w13, w14, w15]) t =
     ((word_of_nat (unat (rotl 5 a + sha1_f t b c d + e + sha1_k t + w0)), a,
       word_of_nat (unat (rotl 30 b)), c, d),
      [w1, w2, w3, w4, w5, w6, w7, w8, w9, w10, w11, w12, w13, w14, w15,
       word_of_nat (unat (rotl 1 (w13 XOR w8 XOR w2 XOR w0)))])"
  by simp

lemma replicate_numeral: "replicate (numeral n) x = x # replicate (pred_numeral n) x"
  by (simp add: numeral_eq_Suc)

lemmas sha1_eval = replicate_numeral sha1_def pad_def length_bytes_def compress_def rotl_def
  sha1_f_def sha1_k_def upt_0_numeral upt_Suc_0_numeral sha1_round_reduced hex32_def hexchar_def

lemmas text_eval = lower_def strip_def strip_chars_def isspace_def lower_char_def isdigit_def
  encode_utf8_def utf8_char_def char_of_def bit_Suc_0_iff

lemmas cell_eval = row_name_def str_or_empty_def fillna_str_def strip_def strip_chars_def
  isspace_def

text \<open>A padded message is a whole number of blocks, whatever its length.\<close>

lemma zeros_small: "r \<le> 55 \<Longrightarrow> (119 - r) mod 64 = 55 - (r::nat)"
proof -
  assume r: "r \<le> 55"
  then have "119 - r = 64 + (55 - r)" by simp
  then have "(119 - r) mod 64 = (55 - r) mod 64" by (simp only: mod_add_self1)
  also have "\<dots> = 55 - r" by (rule mod_less) simp
  finally show ?thesis .
qed

lemma zeros_large: "55 < r \<Longrightarrow> (119 - r) mod 64 = 119 - (r::nat)"
  by (rule mod_less) simp

lemma length_pad: "length (pad m) mod 64 = 0"
proof -
  define q r where "q = length m div 64" and "r = length m mod 64"
  have len: "length m = 64 * q + r" and r: "r < 64"
    by (simp_all add: q_def r_def)
  have "length (pad m) = length m + 1 + (119 - r) mod 64 + 8"
    by (simp add: pad_def length_bytes_def r_def)
  then have total: "length (pad m) = 64 * q + r + 1 + (119 - r) mod 64 + 8"
    by (simp only: len)
  show ?thesis
  proof (cases "r \<le> 55")
    case True
    then have "length (pad m) = 64 * (q + 1)"
      by (simp add: total zeros_small)
    then show ?thesis by simp
  next
    case False
    then have "length (pad m) = 64 * (q + 2)"
      using r by (simp add: total zeros_large)
    then show ?thesis by simp
  qed
qed

text \<open>
  The two test vectors of FIPS 180: the digest of \<open>abc\<close>, and that of a message of 56
  bytes, whose padding runs into a second block.
\<close>

lemma sha1_abc:
  "hexdigest (sha1 (encode_utf8 ''abc'')) = ''a9993e364706816aba3e25717850c26c9cd0d89d''"
  by (simp add: text_eval sha1_eval del: sha1_round.simps)

lemma sha1_two_blocks:
  "hexdigest (sha1 (encode_utf8 ''abcdbcdecdefdefgefghfghighijhijkijkljklmklmnlmnomnopnopq''))
     = ''84983e441c3bd26ebaae4aa1f95129e5e54670f1''"
  by (simp add: text_eval sha1_eval del: sha1_round.simps)

text \<open>The digests the scenarios need.\<close>

lemma digest_draw1: "take 12 (hexdigest (sha1 draw1)) = ''43bf492ba117''"
  by (simp add: draw1_def sha1_eval del: sha1_round.simps)

lemma digest_draw2: "take 12 (hexdigest (sha1 draw2)) = ''43bf492ba117''"
  by (simp add: draw2_def sha1_eval del: sha1_round.simps)

lemma digest_pipes: "take 12 (hexdigest (sha1 (encode_utf8 ''||''))) = ''c65f37b2cb1a''"
  by (simp add: text_eval sha1_eval del: sha1_round.simps)

lemma key_jane_1: "stable_key u ''Jane Doe'' ''0803-111-2222'' = ''a00da052508c''"
  by (simp add: stable_key_def text_eval sha1_eval del: sha1_round.simps)

lemma key_jane_2: "stable_key u ''Jane Doe'' ''0803-999-0000'' = ''2363b9fd44aa''"
  by (simp add: stable_key_def text_eval sha1_eval del: sha1_round.simps)

lemma key_mary: "stable_key u ''Mary'' [] = ''3b77021e9b99''"
  by (simp add: stable_key_def text_eval sha1_eval del: sha1_round.simps)

section \<open>The identity key\<close>

lemma length_hexdigest: "length (hexdigest s) = 40"
  by (cases s) (simp add: hex32_def)

lemma length_stable_key: "length (stable_key u n p) = 12"
  by (simp add: stable_key_def Let_def length_hexdigest)

lemma strip_chars_Nil_iff: "strip_chars P s = [] \<longleftrightarrow> list_all P s"
proof
  assume "strip_chars P s = []"
  then have all: "\<forall>x \<in> set (dropWhile P s). P x"
    by (simp add: strip_chars_def dropWhile_eq_Nil_conv)
  have "dropWhile P s = []"
  proof (rule ccontr)
    assume ne: "dropWhile P s \<noteq> []"
    then have "\<not> P (hd (dropWhile P s))" by (rule hd_dropWhile)
    moreover have "hd (dropWhile P s) \<in> set (dropWhile P s)" using ne by simp
    ultimately show False using all by blast
  qed
  then show "list_all P s" by (simp add: dropWhile_eq_Nil_conv list_all_iff)
next
  assume "list_all P s"
  then have d: "dropWhile P s = []"
    by (simp add: dropWhile_eq_Nil_conv list_all_iff)
  show "strip_chars P s = []"
    by (simp only: strip_chars_def d rev.simps dropWhile.simps)
qed

text \<open>
  The key is the digest of the normalized pair unless that string consists of \<open>|\<close>
  characters only; then it is the digest of the random draw.
\<close>

lemma stable_key_derived:
  assumes "\<not> list_all (\<lambda>c. c = CHR ''|'') (lower (strip n) @ ''|'' @ filter isdigit p)"
  shows "stable_key u n p =
           take 12 (hexdigest (sha1 (encode_utf8 (lower (strip n) @ ''|'' @ filter isdigit p))))"
  using assms by (simp add: stable_key_def Let_def strip_chars_Nil_iff)

lemma stable_key_drawn:
  assumes "list_all (\<lambda>c. c = CHR ''|'') (lower (strip n))" and "filter isdigit p = []"
  shows "stable_key u n p = take 12 (hexdigest (sha1 u))"
  using assms by (simp add: stable_key_def Let_def strip_chars_Nil_iff)

text \<open>
  C5, at the input where the code departs from it. The name \<open>|\<close> with an empty phone
  does not normalize to two empty strings, and the claim makes its key the first twelve
  digits of the digest of \<open>||\<close>, which is \<open>c65f37b2cb1a\<close>. The code tests
  \<open>raw.strip("|")\<close>, finds it empty and returns the digest of the random draw instead:
  \<open>43bf492ba117\<close> for the draw \<open>draw1\<close>.
\<close>

theorem stable_key_pipe_name:
  "lower (strip ''|'') \<noteq> [] \<and>
   stable_key draw1 ''|'' [] = ''43bf492ba117'' \<and>
   take 12 (hexdigest (sha1 (encode_utf8 (lower (strip ''|'') @ ''|'' @ filter isdigit []))))
     = ''c65f37b2cb1a''"
proof -
  have n: "lower (strip ''|'') = ''|''" by (simp add: text_eval)
  have "stable_key draw1 ''|'' [] = take 12 (hexdigest (sha1 draw1))"
    by (rule stable_key_drawn) (simp_all add: n)
  then show ?thesis by (simp add: n digest_draw1 digest_pipes)
qed

theorem stable_key_pipe_name_witness:
  "stable_key draw1 ''|'' [] \<noteq>
     take 12 (hexdigest (sha1 (encode_utf8 (lower (strip ''|'') @ ''|'' @ filter isdigit []))))"
  using stable_key_pipe_name by simp

text \<open>
  C9, as the code has it. When name and phone both normalize to the empty string, the
  key is the first twelve hexadecimal digits of the SHA-1 digest of the sixteen bytes
  drawn, whatever the inputs; so two calls give different keys exactly when those
  twelve digits of their two draws differ.
\<close>

theorem stable_key_blank:
  assumes "lower (strip n1) = []" "filter isdigit p1 = []"
    and "lower (strip n2) = []" "filter isdigit p2 = []"
  shows "stable_key u1 n1 p1 = take 12 (hexdigest (sha1 u1)) \<and>
         (stable_key u1 n1 p1 \<noteq> stable_key u2 n2 p2 \<longleftrightarrow>
          take 12 (hexdigest (sha1 u1)) \<noteq> take 12 (hexdigest (sha1 u2)))"
  using assms by (simp add: stable_key_drawn)

theorem stable_key_blank_witness:
  "lower (strip ''  '') = [] \<and> filter isdigit ''+-'' = [] \<and>
   lower (strip []) = [] \<and> filter isdigit [] = [] \<and>
   stable_key draw1 ''  '' ''+-'' = ''43bf492ba117'' \<and>
   (stable_key draw1 ''  '' ''+-'' \<noteq> stable_key draw2 [] [] \<longleftrightarrow>
      take 12 (hexdigest (sha1 draw1)) \<noteq> take 12 (hexdigest (sha1 draw2)))"
proof -
  have 1: "lower (strip ''  '') = []" by (simp add: text_eval)
  have 2: "filter isdigit ''+-'' = []" by (simp add: text_eval)
  have 3: "lower (strip []) = []" by (simp add: text_eval)
  have 4: "filter isdigit [] = []" by simp
  note inst = stable_key_blank [OF 1 2 3 4, of draw1 draw2]
  have 5: "stable_key draw1 ''  '' ''+-'' = ''43bf492ba117''"
    using inst [THEN conjunct1] by (simp only: digest_draw1)
  show ?thesis
    by (intro conjI 1 2 3 4 5 inst [THEN conjunct2])
qed

text \<open>
  Two calls on the blank identity that draw different bytes and return the same key.
\<close>

theorem stable_key_blank_collision:
  "draw1 \<noteq> draw2 \<and> length draw1 = 16 \<and> length draw2 = 16 \<and>
   stable_key draw1 [] [] = stable_key draw2 [] []"
proof -
  have "stable_key draw1 [] [] = take 12 (hexdigest (sha1 draw1))"
    by (rule stable_key_drawn) (simp_all add: text_eval)
  moreover have "stable_key draw2 [] [] = take 12 (hexdigest (sha1 draw2))"
    by (rule stable_key_drawn) (simp_all add: text_eval)
  ultimately show ?thesis
    by (simp add: digest_draw1 digest_draw2) (simp add: draw1_def draw2_def)
qed

section \<open>Saving a new caregiver\<close>

lemma invalid_child_phones_Nil: "invalid_child_phones edited = []"
  by (simp add: invalid_child_phones_def validate_phone_number_def)

text \<open>
  C3. Saving a caregiver with a child list that is empty, or whose rows all have an
  empty name after trimming, goes through (such rows carrying no other data, which the
  form would reject) and leaves no child row under the caregiver's key, whatever child
  rows the key had before.
\<close>

theorem save_caregiver_blank_children:
  assumes "c_name form \<noteq> []"
    and "list_all (\<lambda>r. row_name r = []) edited"
    and "missing_child_names edited = []"
  shows "\<exists>cg_df' ch_df'.
           save_caregiver urandom now form edited (cg_df, ch_df) = Inr (cg_df', ch_df') \<and>
           filter (\<lambda>r. ch_caregiver_key r = stable_key urandom (c_name form) (c_phone form)) ch_df'
             = []"
proof -
  have "filter (\<lambda>r. row_name r \<noteq> []) edited = []"
    using assms(2) by (induction edited) auto
  then show ?thesis
    using assms(1,3) by (simp add: save_caregiver_def invalid_child_phones_Nil Let_def)
qed

theorem save_caregiver_blank_children_witness:
  "c_name jane_form \<noteq> [] \<and> list_all (\<lambda>r. row_name r = []) [blank_row] \<and>
   missing_child_names [blank_row] = [] \<and>
   filter (\<lambda>r. ch_caregiver_key r = ''a00da052508c'') [tom, tim] = [tom] \<and>
   (\<exists>cg_df' ch_df'.
      save_caregiver draw1 noon jane_form [blank_row] ([jane, bob], [tom, tim]) = Inr (cg_df', ch_df') \<and>
      filter (\<lambda>r. ch_caregiver_key r = ''a00da052508c'') ch_df' = [])"
proof -
  have 1: "c_name jane_form \<noteq> []" by (simp add: jane_form_def)
  have 2: "list_all (\<lambda>r. row_name r = []) [blank_row]"
    by (simp add: blank_row_def cell_eval)
  have 3: "missing_child_names [blank_row] = []"
    by (simp add: missing_child_names_def blank_row_def cell_eval)
  have 4: "filter (\<lambda>r. ch_caregiver_key r = ''a00da052508c'') [tom, tim] = [tom]"
    by (simp add: tom_def tim_def)
  have 5: "stable_key draw1 (c_name jane_form) (c_phone jane_form) = ''a00da052508c''"
    by (simp add: jane_form_def key_jane_1)
  show ?thesis
    using 1 2 3 4 save_caregiver_blank_children [OF 1 2 3, of draw1 noon "[jane, bob]" "[tom, tim]"]
    by (simp add: 5)
qed


section \<open>Editing a caregiver\<close>

lemma stripped_Str: "stripped x \<Longrightarrow> \<exists>s. x = Str s \<and> strip s = s"
  by (cases x) (simp_all add: stripped_def)

lemma str_or_empty_Str: "str_or_empty (Str s) = s"
  by (simp add: str_or_empty_def)

text \<open>
  A written child goes through the editor and the handler unchanged but for the key,
  the caregiver's name and the time stamp.
\<close>

lemma updated_child_written:
  assumes "written_child c"
  shows "updated_child new_key now form (children_edit_data c)
           = c\<lparr>ch_caregiver_key := new_key, ch_caregiver_name := Str (strip (edit_name form)),
               ch_last_updated := Str now\<rparr>"
    and "row_name (children_edit_data c) \<noteq> []"
proof -
  from assms obtain n g p e s l q where
    c: "child_name c = Str n" "strip n = n" "n \<noteq> []" "child_gender c = Str g" "strip g = g"
       "child_phone_number c = Str p" "strip p = p" "child_education_level c = Str e" "strip e = e"
       "child_school_name c = Str s" "strip s = s" "child_class_level c = Str l" "strip l = l"
       "child_profession c = Str q" "strip q = q"
    unfolding written_child_def by (auto dest!: stripped_Str)
  show "updated_child new_key now form (children_edit_data c)
           = c\<lparr>ch_caregiver_key := new_key, ch_caregiver_name := Str (strip (edit_name form)),
               ch_last_updated := Str now\<rparr>"
    by (simp add: updated_child_def children_edit_data_def row_name_def fillna_str_def
        str_or_empty_Str c)
  show "row_name (children_edit_data c) \<noteq> []"
    by (simp add: children_edit_data_def row_name_def str_or_empty_Str c)
qed

text \<open>
  C2, at the input where the code departs from it. The children editor of the Edit tab
  is created only for a caregiver who has children, so for a caregiver who has none the
  handler stops on the unbound \<open>edited_children\<close>, whatever the form holds, before
  anything is saved: an edit of the name or the phone of such a caregiver leaves the
  row under the old key, and no row is written under the new one.
\<close>

theorem update_caregiver_childless:
  assumes "filter (\<lambda>r. caregiver_name r = Str selected) cg_df = caregiver_data # others"
    and "edit_name form \<noteq> []"
    and "filter (\<lambda>r. ch_caregiver_key r = caregiver_key caregiver_data) ch_df = []"
  shows "update_caregiver urandom now selected form edited_children (cg_df, ch_df) = Inl NameError"
  using assms by (simp add: update_caregiver_def Let_def)

theorem update_caregiver_childless_witness:
  "filter (\<lambda>r. caregiver_name r = Str ''Jane Doe'') [jane, bob] = jane # [] \<and>
   edit_name jane_new_phone \<noteq> [] \<and>
   filter (\<lambda>r. ch_caregiver_key r = caregiver_key jane) [tim] = [] \<and>
   Str (edit_phone jane_new_phone) \<noteq> phone_number jane \<and>
   caregiver_key jane = ''a00da052508c'' \<and>
   stable_key draw1 (edit_name jane_new_phone) (edit_phone jane_new_phone) = ''2363b9fd44aa'' \<and>
   update_caregiver draw1 noon ''Jane Doe'' jane_new_phone [] ([jane, bob], [tim]) = Inl NameError"
proof -
  have 1: "filter (\<lambda>r. caregiver_name r = Str ''Jane Doe'') [jane, bob] = jane # []"
    by (simp add: jane_def bob_def)
  have 2: "edit_name jane_new_phone \<noteq> []"
    by (simp add: jane_new_phone_def)
  have 3: "filter (\<lambda>r. ch_caregiver_key r = caregiver_key jane) [tim] = []"
    by (simp add: jane_def tim_def)
  have 4: "Str (edit_phone jane_new_phone) \<noteq> phone_number jane"
    by (simp add: jane_new_phone_def jane_def)
  have 5: "caregiver_key jane = ''a00da052508c''"
    by (simp add: jane_def)
  have 6: "stable_key draw1 (edit_name jane_new_phone) (edit_phone jane_new_phone) = ''2363b9fd44aa''"
    by (simp add: jane_new_phone_def key_jane_2)
  note 7 = update_caregiver_childless [OF 1 2 3, of draw1 noon "[]"]
  show ?thesis
    by (intro conjI 1 2 3 4 5 6 7)
qed

text \<open>
  For a caregiver who has children the re-keying edit does what is asked. An edit that
  changes the name or the phone and derives a key other than the current one goes
  through and leaves no caregiver row and no child row under the old key. The
  children are put back from the editor's rows: with the editor left as it was opened,
  every child of the old key that has a name appears under the new key with that name,
  its age and its date of birth, and every child row that is as the handlers write it
  appears under the new key unchanged but for the key, the caregiver's name and the
  time stamp.
\<close>

lemma update_caregiver_rekey:
  assumes sel: "filter (\<lambda>r. caregiver_name r = Str selected) cg_df = caregiver_data # others"
    and nm: "edit_name form \<noteq> []"
    and kids: "filter (\<lambda>r. ch_caregiver_key r = caregiver_key caregiver_data) ch_df \<noteq> []"
    and changed: "Str (edit_name form) \<noteq> caregiver_name caregiver_data \<or>
                  Str (edit_phone form) \<noteq> phone_number caregiver_data"
    and differs: "stable_key urandom (edit_name form) (edit_phone form) \<noteq> caregiver_key caregiver_data"
  shows "\<exists>cg_df' ch_df'.
      update_caregiver urandom now selected form edited_children (cg_df, ch_df) = Inr (cg_df', ch_df') \<and>
      filter (\<lambda>r. caregiver_key r = caregiver_key caregiver_data) cg_df' = [] \<and>
      filter (\<lambda>r. ch_caregiver_key r = caregiver_key caregiver_data) ch_df' = [] \<and>
      (edited_children =
         map children_edit_data (filter (\<lambda>r. ch_caregiver_key r = caregiver_key caregiver_data) ch_df) \<longrightarrow>
       (\<forall>c \<in> set ch_df. ch_caregiver_key c = caregiver_key caregiver_data \<longrightarrow>
          strip (str_or_empty (child_name c)) \<noteq> [] \<longrightarrow>
          (\<exists>c' \<in> set ch_df'.
             ch_caregiver_key c' = stable_key urandom (edit_name form) (edit_phone form) \<and>
             child_name c' = Str (strip (str_or_empty (child_name c))) \<and>
             child_age c' = child_age c \<and> child_date_of_birth c' = child_date_of_birth c)) \<and>
       (\<forall>c \<in> set ch_df. ch_caregiver_key c = caregiver_key caregiver_data \<longrightarrow> written_child c \<longrightarrow>
          c\<lparr>ch_caregiver_key := stable_key urandom (edit_name form) (edit_phone form),
            ch_caregiver_name := Str (strip (edit_name form)),
            ch_last_updated := Str now\<rparr> \<in> set ch_df'))"
proof -
  let ?old = "caregiver_key caregiver_data"
  let ?new = "stable_key urandom (edit_name form) (edit_phone form)"
  let ?rows = "map (updated_child ?new now form) (filter (\<lambda>r. row_name r \<noteq> []) edited_children)"
  let ?cg = "filter (\<lambda>r. caregiver_key r \<noteq> ?old) cg_df @ [updated_caregiver ?new now form]"
  let ?ch = "filter (\<lambda>r. ch_caregiver_key r \<noteq> ?old) ch_df @ ?rows"
  have run: "update_caregiver urandom now selected form edited_children (cg_df, ch_df) = Inr (?cg, ?ch)"
    using nm kids changed
    by (auto simp: update_caregiver_def sel invalid_child_phones_Nil Let_def)
  have new_cg: "caregiver_key (updated_caregiver ?new now form) = ?new"
    by (simp add: updated_caregiver_def)
  have new_ch: "ch_caregiver_key (updated_child ?new now form r) = ?new" for r
    by (simp add: updated_child_def)
  have 1: "filter (\<lambda>r. caregiver_key r = ?old) ?cg = []"
    using differs by (simp add: new_cg)
  have 2: "filter (\<lambda>r. ch_caregiver_key r = ?old) ?ch = []"
    using differs by (auto simp: filter_empty_conv new_ch)
  have 3: "\<exists>c' \<in> set ?ch. ch_caregiver_key c' = ?new \<and>
             child_name c' = Str (strip (str_or_empty (child_name c))) \<and>
             child_age c' = child_age c \<and> child_date_of_birth c' = child_date_of_birth c"
    if ed: "edited_children = map children_edit_data (filter (\<lambda>r. ch_caregiver_key r = ?old) ch_df)"
      and c: "c \<in> set ch_df" "ch_caregiver_key c = ?old" "strip (str_or_empty (child_name c)) \<noteq> []"
    for c
  proof -
    have "row_name (children_edit_data c) \<noteq> []"
      using c(3) by (simp add: row_name_def children_edit_data_def)
    then have "children_edit_data c \<in> set (filter (\<lambda>r. row_name r \<noteq> []) edited_children)"
      using c(1,2) by (simp add: ed)
    then have "updated_child ?new now form (children_edit_data c) \<in> set ?ch"
      by simp
    moreover have "child_name (updated_child ?new now form (children_edit_data c))
                     = Str (strip (str_or_empty (child_name c)))"
      by (simp add: updated_child_def row_name_def children_edit_data_def)
    moreover have "child_age (updated_child ?new now form (children_edit_data c)) = child_age c"
      "child_date_of_birth (updated_child ?new now form (children_edit_data c)) = child_date_of_birth c"
      by (simp_all add: updated_child_def children_edit_data_def)
    ultimately show ?thesis
      using new_ch by blast
  qed
  have 4: "c\<lparr>ch_caregiver_key := ?new, ch_caregiver_name := Str (strip (edit_name form)),
              ch_last_updated := Str now\<rparr> \<in> set ?ch"
    if ed: "edited_children = map children_edit_data (filter (\<lambda>r. ch_caregiver_key r = ?old) ch_df)"
      and c: "c \<in> set ch_df" "ch_caregiver_key c = ?old" "written_child c" for c
  proof -
    have "children_edit_data c \<in> set (filter (\<lambda>r. row_name r \<noteq> []) edited_children)"
      using c updated_child_written(2) [OF c(3)] by (simp add: ed)
    then have "updated_child ?new now form (children_edit_data c) \<in> set ?rows"
      by simp
    then show ?thesis
      by (simp add: updated_child_written(1) [OF c(3)])
  qed
  show ?thesis
    using run 1 2 3 4 by blast
qed

lemma update_caregiver_rekey_witness:
  "filter (\<lambda>r. caregiver_name r = Str ''Jane Doe'') [jane, bob] = jane # [] \<and>
   edit_name jane_new_phone \<noteq> [] \<and>
   filter (\<lambda>r. ch_caregiver_key r = caregiver_key jane) [tom, tim] \<noteq> [] \<and>
   Str (edit_phone jane_new_phone) \<noteq> phone_number jane \<and>
   stable_key draw1 (edit_name jane_new_phone) (edit_phone jane_new_phone) \<noteq> caregiver_key jane \<and>
   written_child tom \<and>
   (\<exists>cg_df' ch_df'.
      update_caregiver draw1 noon ''Jane Doe'' jane_new_phone [children_edit_data tom]
          ([jane, bob], [tom, tim])
        = Inr (cg_df', ch_df') \<and>
      filter (\<lambda>r. caregiver_key r = ''a00da052508c'') cg_df' = [] \<and>
      filter (\<lambda>r. ch_caregiver_key r = ''a00da052508c'') ch_df' = [] \<and>
      tom\<lparr>ch_caregiver_key := ''2363b9fd44aa'', ch_last_updated := Str noon\<rparr> \<in> set ch_df')"
proof -
  have key: "stable_key draw1 (edit_name jane_new_phone) (edit_phone jane_new_phone) = ''2363b9fd44aa''"
    by (simp add: jane_new_phone_def key_jane_2)
  have old: "caregiver_key jane = ''a00da052508c''"
    by (simp add: jane_def)
  have 1: "filter (\<lambda>r. caregiver_name r = Str ''Jane Doe'') [jane, bob] = jane # []"
    by (simp add: jane_def bob_def)
  have 2: "edit_name jane_new_phone \<noteq> []"
    by (simp add: jane_new_phone_def)
  have 3: "filter (\<lambda>r. ch_caregiver_key r = caregiver_key jane) [tom, tim] \<noteq> []"
    by (simp add: jane_def tom_def)
  have 4: "Str (edit_phone jane_new_phone) \<noteq> phone_number jane"
    by (simp add: jane_new_phone_def jane_def)
  have 5: "stable_key draw1 (edit_name jane_new_phone) (edit_phone jane_new_phone) \<noteq> caregiver_key jane"
    by (simp add: key old)
  have 6: "written_child tom"
    by (simp add: written_child_def stripped_def tom_def strip_def strip_chars_def isspace_def)
  have 7: "[children_edit_data tom] =
             map children_edit_data (filter (\<lambda>r. ch_caregiver_key r = caregiver_key jane) [tom, tim])"
    by (simp add: jane_def tom_def tim_def)
  from update_caregiver_rekey [OF 1 2 3 disjI2 [OF 4] 5, of noon "[children_edit_data tom]"]
  obtain cg_df' ch_df' where r:
    "update_caregiver draw1 noon ''Jane Doe'' jane_new_phone [children_edit_data tom]
        ([jane, bob], [tom, tim]) = Inr (cg_df', ch_df')"
    "filter (\<lambda>r. caregiver_key r = caregiver_key jane) cg_df' = []"
    "filter (\<lambda>r. ch_caregiver_key r = caregiver_key jane) ch_df' = []"
    "[children_edit_data tom] =
       map children_edit_data (filter (\<lambda>r. ch_caregiver_key r = caregiver_key jane) [tom, tim]) \<longrightarrow>
       (\<forall>c \<in> set [tom, tim]. ch_caregiver_key c = caregiver_key jane \<longrightarrow> written_child c \<longrightarrow>
          c\<lparr>ch_caregiver_key := stable_key draw1 (edit_name jane_new_phone) (edit_phone jane_new_phone),
            ch_caregiver_name := Str (strip (edit_name jane_new_phone)),
            ch_last_updated := Str noon\<rparr> \<in> set ch_df')"
    by blast
  from r(4) 7 6 have "tom\<lparr>ch_caregiver_key := ''2363b9fd44aa'',
            ch_caregiver_name := Str (strip (edit_name jane_new_phone)),
            ch_last_updated := Str noon\<rparr> \<in> set ch_df'"
    by (simp add: key old tom_def)
  moreover have "tom\<lparr>ch_caregiver_key := ''2363b9fd44aa'',
            ch_caregiver_name := Str (strip (edit_name jane_new_phone)),
            ch_last_updated := Str noon\<rparr>
          = tom\<lparr>ch_caregiver_key := ''2363b9fd44aa'', ch_last_updated := Str noon\<rparr>"
    by (simp add: tom_def jane_new_phone_def strip_def strip_chars_def isspace_def)
  ultimately have m: "tom\<lparr>ch_caregiver_key := ''2363b9fd44aa'', ch_last_updated := Str noon\<rparr>
                        \<in> set ch_df'"
    by simp
  show ?thesis
    using 1 2 3 4 5 6 r(1) r(2) r(3) m by (simp add: old)
qed






text \<open>The writes that keep one caregiver row per key.\<close>

lemma distinct_upsert:
  assumes "distinct (map caregiver_key cg_df)" and "caregiver_key row = key"
  shows "distinct (map caregiver_key (filter (\<lambda>r. caregiver_key r \<noteq> key) cg_df @ [row]))"
  using assms by (auto simp: distinct_map_filter)

lemma caregiver_key_new_row: "caregiver_key (new_row key now form) = key"
  by (simp add: new_row_def)

lemma caregiver_key_imported_row: "caregiver_key (imported_row key now n p row) = key"
  by (simp add: imported_row_def)

lemma save_caregiver_distinct:
  assumes "save_caregiver urandom now form edited (cg_df, ch_df) = Inr (cg_df', ch_df')"
    and "distinct (map caregiver_key cg_df)"
  shows "distinct (map caregiver_key cg_df')"
proof -
  have "cg_df' = filter (\<lambda>r. caregiver_key r \<noteq> stable_key urandom (c_name form) (c_phone form)) cg_df
                  @ [new_row (stable_key urandom (c_name form) (c_phone form)) now form]"
    using assms(1) by (auto simp: save_caregiver_def Let_def split: if_splits)
  then show ?thesis
    using assms(2) by (simp only: distinct_upsert [OF _ caregiver_key_new_row])
qed

lemma import_caregiver_row_distinct:
  "distinct (map caregiver_key (fst tabs)) \<Longrightarrow>
   distinct (map caregiver_key (fst (import_caregiver_row u n row tabs)))"
  by (cases tabs)
    (auto simp: import_caregiver_row_def Let_def distinct_map_filter caregiver_key_imported_row)

lemma import_loop_distinct:
  "distinct (map caregiver_key (fst tabs)) \<Longrightarrow>
   distinct (map caregiver_key (fst (import_loop urandom utcnow i rows tabs)))"
  by (induction rows arbitrary: i tabs) (simp_all add: import_caregiver_row_distinct)

lemma import_caregivers_distinct:
  "distinct (map caregiver_key cg_df) \<Longrightarrow>
   distinct (map caregiver_key (fst (import_caregivers urandom utcnow import_df (cg_df, ch_df))))"
  by (simp add: import_caregivers_def import_loop_distinct)

text \<open>
  The edit keeps it too when the key it writes is the edited row's own or is new to
  the sheet.
\<close>

lemma update_caregiver_distinct:
  assumes "update_caregiver urandom now selected form edited_children (cg_df, ch_df)
             = Inr (cg_df', ch_df')"
    and "distinct (map caregiver_key cg_df)"
    and "stable_key urandom (edit_name form) (edit_phone form) \<notin> caregiver_key ` set cg_df \<or>
         stable_key urandom (edit_name form) (edit_phone form)
           = caregiver_key (hd (filter (\<lambda>r. caregiver_name r = Str selected) cg_df))"
  shows "distinct (map caregiver_key cg_df')"
  using assms
  by (auto simp: update_caregiver_def Let_def updated_caregiver_def distinct_map_filter
      split: list.splits if_splits)

text \<open>
  C1, at the input where the code departs from it. The sheet holds Jane Doe and Bob,
  one row per key. Bob is edited and given Jane Doe's name and phone: the handler
  removes the row under Bob's key only and appends the edited row under the key derived
  from the new name and phone, which is Jane Doe's. The sheet then has two rows under
  that key.
\<close>

theorem update_caregiver_duplicate_key:
  "distinct (map caregiver_key [jane, bob]) \<and>
   (\<exists>tabs. update_caregiver draw1 noon ''Bob'' bob_as_jane [children_edit_data tim]
              ([jane, bob], [tom, tim]) = Inr tabs \<and>
           map caregiver_key (fst tabs) = [''a00da052508c'', ''a00da052508c''])"
  by (simp add: update_caregiver_def invalid_child_phones_Nil jane_def bob_def tom_def tim_def
      bob_as_jane_def children_edit_data_def updated_caregiver_def updated_child_def
      cell_eval key_jane_1)

theorem update_caregiver_duplicate_key_witness:
  "\<exists>tabs. update_caregiver draw1 noon ''Bob'' bob_as_jane [children_edit_data tim]
             ([jane, bob], [tom, tim]) = Inr tabs \<and>
          \<not> distinct (map caregiver_key (fst tabs))"
proof -
  from update_caregiver_duplicate_key [THEN conjunct2] obtain tabs where
    t: "update_caregiver draw1 noon ''Bob'' bob_as_jane [children_edit_data tim]
          ([jane, bob], [tom, tim]) = Inr tabs"
       "map caregiver_key (fst tabs) = [''a00da052508c'', ''a00da052508c'']"
    by (elim exE conjE)
  have "\<not> distinct (map caregiver_key (fst tabs))"
    by (simp only: t(2)) simp
  with t(1) show ?thesis by blast
qed

section \<open>Caregiver import leaves the children sheet alone\<close>

lemma snd_import_caregiver_row: "snd (import_caregiver_row u n row tabs) = snd tabs"
  by (cases tabs) (simp add: import_caregiver_row_def Let_def)

lemma snd_import_loop: "snd (import_loop urandom utcnow i rows tabs) = snd tabs"
  by (induction rows arbitrary: i tabs) (simp_all add: snd_import_caregiver_row)

text \<open>
  C10. A caregiver-shaped import changes the caregivers sheet only: whatever rows are
  uploaded, whatever keys they get, the children sheet handed to \<open>save_data\<close> is the one
  that was loaded, so every child keeps the caregiver key it had.
\<close>

theorem import_caregivers_children_unchanged:
  "snd (import_caregivers urandom utcnow import_df (cg_df, ch_df)) = ch_df"
  by (simp add: import_caregivers_def snd_import_loop)

theorem import_caregivers_children_unchanged_witness:
  "import_caregivers fixed_draw fixed_clock [jane_import] ([jane], [tom])
     = ([jane,
         jane\<lparr>caregiver_key := ''2363b9fd44aa'', phone_number := Str ''0803-999-0000'',
              last_updated := Str noon\<rparr>],
        [tom])
   \<and> ch_caregiver_key tom = caregiver_key jane"
proof -
  have "fst (import_caregivers fixed_draw fixed_clock [jane_import] ([jane], [tom]))
          = [jane,
             jane\<lparr>caregiver_key := ''2363b9fd44aa'', phone_number := Str ''0803-999-0000'',
                  last_updated := Str noon\<rparr>]"
    by (simp add: import_caregivers_def import_caregiver_row_def imported_row_def jane_import_def
        jane_def str_or_empty_def strip_def strip_chars_def isspace_def key_jane_2
        fixed_clock_def)
  moreover note import_caregivers_children_unchanged [of fixed_draw fixed_clock "[jane_import]" "[jane]" "[tom]"]
  ultimately show ?thesis
    by (simp add: prod_eq_iff jane_def tom_def)
qed

section \<open>The phone migration\<close>

lemma dropWhile_rev_fixed:
  assumes "a = [] \<or> \<not> P (hd a)"
  shows "dropWhile P (rev (dropWhile P (rev a))) = rev (dropWhile P (rev a))"
proof -
  define b where "b = dropWhile P (rev a)"
  define t where "t = takeWhile P (rev a)"
  have "rev a = t @ b" unfolding b_def t_def by simp
  then have a: "a = rev b @ rev t" by (metis rev_append rev_rev_ident)
  show ?thesis
  proof (cases "rev b")
    case Nil
    then show ?thesis unfolding b_def [symmetric] by simp
  next
    case (Cons x xs)
    then have "hd a = x" "a \<noteq> []" using a by auto
    with assms have "\<not> P x" by auto
    then show ?thesis unfolding b_def [symmetric] Cons by simp
  qed
qed

lemma strip_chars_idem: "strip_chars P (strip_chars P s) = strip_chars P s"
proof -
  have "dropWhile P s = [] \<or> \<not> P (hd (dropWhile P s))"
    by (metis hd_dropWhile)
  then have "dropWhile P (rev (dropWhile P (rev (dropWhile P s))))
               = rev (dropWhile P (rev (dropWhile P s)))"
    by (rule dropWhile_rev_fixed)
  then show ?thesis
    unfolding strip_chars_def by (simp add: dropWhile_idem)
qed

lemma strip_idem: "strip (strip s) = strip s"
  by (simp add: strip_def strip_chars_idem)

text \<open>
  The loop alone, run again on the frame it has returned and with the same caregivers,
  changes nothing: a row it has filled holds a stripped, non-empty string, so the loop
  passes it by the next time, and a row it has left alone is left alone again. What
  makes a second run of the program differ is the way through the workbook.
\<close>

lemma migrate_loop_idem:
  "migrate_loop phones (fst (migrate_loop phones rows)) = (fst (migrate_loop phones rows), 0)"
proof (induction rows)
  case Nil
  show ?case by simp
next
  case (Cons row rows)
  obtain rows' n where r: "migrate_loop phones rows = (rows', n)"
    by (cases "migrate_loop phones rows")
  with Cons.IH have IH: "migrate_loop phones rows' = (rows', 0)" by simp
  show ?case
    by (auto simp: r IH strip_idem Let_def split: option.splits)
qed

text \<open>
  C6, at the input where the code departs from it. Mary has no phone, so her phone
  cell is read as \<open>nan\<close>; \<open>nan\<close> is truthy and prints as \<open>nan\<close>, so the loop takes
  it for a phone and writes the text \<open>nan\<close> as the phone of her child Ada. The first run
  fills Tom's phone from Jane Doe's, and Ada's in this way, and reports 2. The text
  \<open>nan\<close> is read back as a missing value, so the second run, which starts from the
  file the first one saved, finds Ada's phone missing, writes it again and reports 1,
  not 0, and so does every later run: the file stays as the first run left it.
\<close>

theorem migrate_child_phone_numbers_second_run:
  "\<exists>book. migrate_child_phone_numbers (Some registry) = (Some book, 2) \<and>
          map child_phone_number (sheet_children book)
            = [Str ''0803-111-2222'', Str ''0701-222-3333'', Str ''nan''] \<and>
          map child_phone_number (snd (snd (load_data (Some book))))
            = [Str ''0803-111-2222'', Str ''0701-222-3333'', NaN] \<and>
          migrate_child_phone_numbers (Some book) = (Some book, 1)"
proof -
  define book where "book =
    \<lparr>sheet_caregivers = [read_caregiver jane, read_caregiver mary],
     sheet_children = [(read_child tom)\<lparr>child_phone_number := Str ''0803-111-2222''\<rparr>,
                       read_child tola,
                       (read_child ada)\<lparr>child_phone_number := Str ''nan''\<rparr>]\<rparr>"
  have first: "migrate_child_phone_numbers (Some registry) = (Some book, 2)"
    by (simp add: migrate_child_phone_numbers_def load_data_def save_data_def ensure_excel_def
        registry_def book_def caregiver_phones_def read_caregiver_def read_child_def
        read_cell_def na_values_def jane_def mary_def tom_def tola_def ada_def
        strip_def strip_chars_def isspace_def Let_def)
  have sheet: "map child_phone_number (sheet_children book)
                 = [Str ''0803-111-2222'', Str ''0701-222-3333'', Str ''nan'']"
    by (simp add: book_def read_child_def read_cell_def na_values_def tola_def)
  have loaded: "map child_phone_number (snd (snd (load_data (Some book))))
                  = [Str ''0803-111-2222'', Str ''0701-222-3333'', NaN]"
    by (simp add: load_data_def ensure_excel_def book_def read_child_def read_cell_def
        na_values_def tola_def Let_def)
  have second: "migrate_child_phone_numbers (Some book) = (Some book, 1)"
    by (simp add: migrate_child_phone_numbers_def load_data_def save_data_def ensure_excel_def
        book_def caregiver_phones_def read_caregiver_def read_child_def
        read_cell_def na_values_def jane_def mary_def tom_def tola_def ada_def
        strip_def strip_chars_def isspace_def Let_def)
  show ?thesis
    by (intro exI [of _ book] conjI first sheet loaded second)
qed

theorem migrate_child_phone_numbers_second_run_witness:
  "snd (migrate_child_phone_numbers (fst (migrate_child_phone_numbers (Some registry)))) \<noteq> 0"
  using migrate_child_phone_numbers_second_run by auto

section \<open>The unverified list\<close>

text \<open>
  C7, at the input where the code departs from it. The names \<open>Amaka\<close>, \<open>amaka \<close> and
  \<open>Bayo\<close> are uploaded to an empty list. \<open>unique()\<close> keeps all three, each is looked up
  in the list as loaded, which is empty, and so three records are added, \<open>Amaka\<close> and
  \<open>amaka\<close> among them, where the claim has two.
\<close>

theorem add_to_unverified_list_adds_three:
  "snd (add_to_unverified_list fixed_clock noon ''names.csv''
          [Str ''Amaka'', Str ''amaka '', Str ''Bayo''] []) = 3 \<and>
   map name (fst (add_to_unverified_list fixed_clock noon ''names.csv''
                    [Str ''Amaka'', Str ''amaka '', Str ''Bayo''] []))
     = [Str ''Amaka'', Str ''amaka'', Str ''Bayo'']"
  by (simp add: add_to_unverified_list_def names_preview_def name_exists_def Let_def text_eval
      fixed_clock_def)

theorem add_to_unverified_list_adds_three_witness:
  "snd (add_to_unverified_list fixed_clock noon ''names.csv''
          [Str ''Amaka'', Str ''amaka '', Str ''Bayo''] []) \<noteq> 2"
  using add_to_unverified_list_adds_three by simp




end
